theory Spec2Isabelle
  imports Main
begin

section \<open>The module \<open>pushoverutil/queue.py\<close>\<close>

text \<open>
  The module keeps one \<open>Sender\<close> thread per clustering key. A Sender collects message
  bodies and counts down; when the countdown is exhausted its \<open>run\<close> method joins the
  deduplicated bodies and calls \<open>Push\<close>. The model follows the source function by
  function. Python resolves a global name when the statement that mentions it runs, so
  every function takes the module namespace as an argument and a failed lookup is a
  \<open>NameError\<close> value. Each region the source guards with \<open>self.lock\<close> is one atomic
  step of the model.
\<close>

subsection \<open>Errors and values\<close>

datatype error =
    NameError string
  | AttributeError string
  | TypeError string
  | TransportError

text \<open>
  The two functions the name \<open>Push\<close> is bound to in the course of the module body: the
  one imported from \<open>push\<close> (line 27) and the one defined at line 81.
\<close>

datatype callable = TransportPush | ModulePush

datatype gval = IntV int | FunV callable | ObjV string

datatype pyval = PyNone | PyBool bool | PyStr string

subsection \<open>The module namespace\<close>

text \<open>
  The bindings in the order the statements make them; a later binding of a name replaces
  an earlier one.
\<close>

type_synonym globals = "(string \<times> gval) list"

definition lookup :: "globals \<Rightarrow> string \<Rightarrow> error + gval" where
  "lookup g name =
     (case map_of (rev g) name of
        None \<Rightarrow> Inl (NameError name)
      | Some v \<Rightarrow> Inr v)"

text \<open>
  The bindings of the module's own top-level statements: the imports of lines 19 to 29,
  \<open>def Deduplicate\<close>, \<open>class Sender\<close>, \<open>CLUSTER_DICT\<close>, \<open>def Push\<close> and
  \<open>class PushoverQueue\<close>. Line 32, \<open># MAX_COUNTER = 15  # in seconds\<close>, is a comment
  and binds nothing. No statement binds \<open>threading\<close>, which the class statement of
  line 43 and line 50 read: line 28 imports the names \<open>Thread\<close> and \<open>RLock\<close> only.
  The list is the namespace these statements build when each of them completes.
\<close>

definition module_globals :: globals where
  "module_globals =
     [(''datetime'', ObjV ''datetime''),
      (''functools'', ObjV ''functools''),
      (''http'', ObjV ''http''),
      (''os'', ObjV ''os''),
      (''time'', ObjV ''time''),
      (''urllib'', ObjV ''urllib''),
      (''defaultdict'', ObjV ''defaultdict''),
      (''Priority'', ObjV ''Priority''),
      (''Push'', FunV TransportPush),
      (''Thread'', ObjV ''Thread''),
      (''RLock'', ObjV ''RLock''),
      (''Optional'', ObjV ''Optional''),
      (''Deduplicate'', ObjV ''Deduplicate''),
      (''Sender'', ObjV ''Sender''),
      (''CLUSTER_DICT'', ObjV ''CLUSTER_DICT''),
      (''Push'', FunV ModulePush),
      (''PushoverQueue'', ObjV ''PushoverQueue'')]"

text \<open>
  The same namespace with the two unbound names supplied, as the statements
  \<open>MAX_COUNTER = q\<close> and \<open>import threading\<close> would.
\<close>

definition supplied_globals :: "int \<Rightarrow> globals" where
  "supplied_globals q =
     module_globals @ [(''MAX_COUNTER'', IntV q), (''threading'', ObjV ''threading'')]"

subsection \<open>Deduplicate and join\<close>

text \<open>
  \<open>Deduplicate\<close> is a generator; \<open>Deduplicate_from seen items\<close> is its loop with the
  set \<open>seen\<close> as it stands when \<open>items\<close> remain.
\<close>

fun Deduplicate_from :: "'a set \<Rightarrow> 'a list \<Rightarrow> 'a list" where
  "Deduplicate_from seen [] = []"
| "Deduplicate_from seen (item # items) =
     (if item \<notin> seen then item # Deduplicate_from (insert item seen) items
      else Deduplicate_from seen items)"

definition Deduplicate :: "'a list \<Rightarrow> 'a list" where
  "Deduplicate items = Deduplicate_from {} items"

text \<open>Python's \<open>sep.join(parts)\<close>.\<close>

fun join :: "string \<Rightarrow> string list \<Rightarrow> string" where
  "join sep [] = []"
| "join sep [x] = x"
| "join sep (x # y # ys) = x @ sep @ join sep (y # ys)"

definition newline :: string where
  "newline = [CHR 0x0A]"

text \<open>The position of the first occurrence of \<open>x\<close> in \<open>xs\<close>.\<close>

definition first_index :: "'a list \<Rightarrow> 'a \<Rightarrow> nat" where
  "first_index xs x = length (takeWhile (\<lambda>y. y \<noteq> x) xs)"

subsection \<open>Sender\<close>

text \<open>
  Where the thread of a Sender stands: not started, at the test of the \<open>while\<close> loop
  (line 66), before the locked region of lines 70 to 72, before the call of line 75 with
  the local \<open>full_message\<close>, or finished (with the exception that ended \<open>run\<close>, if any).
\<close>

datatype run_pc = NotStarted | AtLoop | AtFlush | AtSend string | Finished "error option"

text \<open>
  The attributes of a Sender. \<open>secrets_json_path\<close> is read at line 75; \<open>None\<close> means the
  object has no such attribute.
\<close>

record Sender =
  messages :: "string list"
  counter :: int
  secrets_json_path :: "string option"
  pc :: run_pc

definition is_alive :: "Sender \<Rightarrow> bool" where
  "is_alive self = (case pc self of
      NotStarted \<Rightarrow> False
    | AtLoop \<Rightarrow> True
    | AtFlush \<Rightarrow> True
    | AtSend full_message \<Rightarrow> True
    | Finished r \<Rightarrow> False)"

definition start :: "Sender \<Rightarrow> Sender" where
  "start self = self\<lparr>pc := AtLoop\<rparr>"

text \<open>
  \<open>Sender.__init__\<close> (lines 44 to 50). Line 49 reads the global \<open>MAX_COUNTER\<close> and
  line 50 the global \<open>threading\<close>. A countdown that is not an integer is outside the
  model and reported as a \<open>TypeError\<close>.
\<close>

definition Sender_init :: "globals \<Rightarrow> string list option \<Rightarrow> error + Sender" where
  "Sender_init g initial_messages =
     (let msgs = (case initial_messages of None \<Rightarrow> [] | Some ms \<Rightarrow> ms) in
      case lookup g ''MAX_COUNTER'' of
        Inl e \<Rightarrow> Inl e
      | Inr (FunV f) \<Rightarrow> Inl (TypeError ''counter'')
      | Inr (ObjV n) \<Rightarrow> Inl (TypeError ''counter'')
      | Inr (IntV c) \<Rightarrow>
          (case lookup g ''threading'' of
             Inl e \<Rightarrow> Inl e
           | Inr t \<Rightarrow>
               if t = ObjV ''threading''
               then Inr \<lparr>messages = msgs, counter = c, secrets_json_path = None,
                         pc = NotStarted\<rparr>
               else Inl (AttributeError ''Lock'')))"

text \<open>
  \<open>EnqueueMessage\<close> (lines 52 to 55): the append of line 54 is done before line 55 reads
  \<open>MAX_COUNTER\<close>, so it stays when the lookup raises.
\<close>

definition EnqueueMessage :: "globals \<Rightarrow> string \<Rightarrow> Sender \<Rightarrow> (error + unit) \<times> Sender" where
  "EnqueueMessage g message self =
     (let self1 = self\<lparr>messages := messages self @ [message]\<rparr> in
      case lookup g ''MAX_COUNTER'' of
        Inl e \<Rightarrow> (Inl e, self1)
      | Inr (FunV f) \<Rightarrow> (Inl (TypeError ''counter''), self1)
      | Inr (ObjV n) \<Rightarrow> (Inl (TypeError ''counter''), self1)
      | Inr (IntV c) \<Rightarrow> (Inr (), self1\<lparr>counter := c\<rparr>))"

definition DecrementCounter :: "Sender \<Rightarrow> int \<times> Sender" where
  "DecrementCounter self =
     (let self1 = self\<lparr>counter := counter self - 1\<rparr> in (counter self1, self1))"

text \<open>
  The loop of lines 66 and 67 when no other thread touches the Sender: decrement until the
  value returned is not positive.
\<close>

function countdown :: "Sender \<Rightarrow> Sender" where
  "countdown self =
     (if fst (DecrementCounter self) > 0 then countdown (snd (DecrementCounter self))
      else snd (DecrementCounter self))"
  by pat_completeness auto
termination
  by (relation "measure (\<lambda>self. nat (counter self))") (auto simp: DecrementCounter_def)

subsection \<open>The transport\<close>

text \<open>
  Modelled from the spec: the transport capability \<open>Send(body, priority) -> Result\<close> of
  the module \<open>push\<close>, which is not among the source files. A transport is the outcome
  it gives for a body (\<open>None\<close> for an acknowledgement); the bodies handed to it are
  logged in order.
\<close>

type_synonym transport = "string \<Rightarrow> error option"

definition transport_Push :: "transport \<Rightarrow> string \<Rightarrow> string list \<Rightarrow> (error + unit) \<times> string list" where
  "transport_Push tr body log =
     ((case tr body of None \<Rightarrow> Inr () | Some e \<Rightarrow> Inl e), log @ [body])"

text \<open>
  Line 75, \<open>Push(full_message, secrets_json_path=self.secrets_json_path)\<close>: the name
  \<open>Push\<close> is looked up, then the arguments are evaluated, then the call is made. The
  function of line 81 has no parameter \<open>secrets_json_path\<close>.
\<close>

definition run_send :: "globals \<Rightarrow> transport \<Rightarrow> string \<Rightarrow> Sender \<Rightarrow> string list \<Rightarrow> (error + unit) \<times> string list" where
  "run_send g tr full_message self log =
     (case lookup g ''Push'' of
        Inl e \<Rightarrow> (Inl e, log)
      | Inr f \<Rightarrow>
          (case secrets_json_path self of
             None \<Rightarrow> (Inl (AttributeError ''secrets_json_path''), log)
           | Some path \<Rightarrow>
               (case f of
                  FunV ModulePush \<Rightarrow> (Inl (TypeError ''secrets_json_path''), log)
                | FunV TransportPush \<Rightarrow> transport_Push tr full_message log
                | IntV n \<Rightarrow> (Inl (TypeError ''not callable''), log)
                | ObjV n \<Rightarrow> (Inl (TypeError ''not callable''), log))))"

text \<open>
  \<open>Sender.run\<close> (lines 62 to 75) with no other thread interfering: the result of the
  call of line 75, the Sender and the transport log.
\<close>

definition run :: "globals \<Rightarrow> transport \<Rightarrow> Sender \<Rightarrow> string list \<Rightarrow> (error + unit) \<times> Sender \<times> string list" where
  "run g tr self log =
     (let self1 = countdown self;
          full_message = join newline (Deduplicate (messages self1));
          self2 = self1\<lparr>messages := []\<rparr>
      in case run_send g tr full_message self2 log of
           (r, log') \<Rightarrow> (r, self2, log'))"

subsection \<open>The registry and the module-level Push\<close>

text \<open>
  The shared state: the Sender objects (a reference is an index into \<open>heap\<close>), the
  dictionary \<open>CLUSTER_DICT\<close> and the log of the bodies handed to the transport.
\<close>

record world =
  heap :: "Sender list"
  CLUSTER_DICT :: "string \<rightharpoonup> nat"
  sent :: "string list"

definition empty_world :: world where
  "empty_world = \<lparr>heap = [], CLUSTER_DICT = Map.empty, sent = []\<rparr>"

text \<open>
  \<open>Push\<close> (lines 81 to 121). Everything after line 102 is a comment, so a call without
  a clustering key runs no statement. The references in \<open>CLUSTER_DICT\<close> are indices
  below \<open>length (heap w)\<close>. An exception in \<open>Sender(...)\<close> leaves line 97 unreached.
\<close>

definition Push :: "globals \<Rightarrow> string \<Rightarrow> string option \<Rightarrow> pyval \<Rightarrow> world \<Rightarrow> (error + unit) \<times> world" where
  "Push g message cluster_key high_priority w =
     (case cluster_key of
        None \<Rightarrow> (Inr (), w)
      | Some key \<Rightarrow>
          if key = [] then (Inr (), w)
          else
            (let sender = CLUSTER_DICT w key in
             if sender = None \<or> \<not> is_alive (heap w ! the sender) then
               (case Sender_init g (Some [message]) of
                  Inl e \<Rightarrow> (Inl e, w)
                | Inr new_sender \<Rightarrow>
                    (Inr (), w\<lparr>heap := heap w @ [start new_sender],
                               CLUSTER_DICT := (CLUSTER_DICT w)(key \<mapsto> length (heap w))\<rparr>))
             else
               (case EnqueueMessage g message (heap w ! the sender) of
                  (r, self') \<Rightarrow> (r, w\<lparr>heap := (heap w)[the sender := self']\<rparr>))))"

text \<open>
  One atomic step of the thread of a Sender: a pass through the loop test
  (\<open>DecrementCounter\<close>, then either the sleep or the exit from the loop), the locked
  region of lines 70 to 72, or the call of line 75, which ends the thread. A thread
  that is not started or has finished does nothing.
\<close>

definition thread_step :: "globals \<Rightarrow> transport \<Rightarrow> Sender \<Rightarrow> string list \<Rightarrow> Sender \<times> string list" where
  "thread_step g tr self log =
     (case pc self of
        NotStarted \<Rightarrow> (self, log)
      | Finished r \<Rightarrow> (self, log)
      | AtLoop \<Rightarrow>
          (case DecrementCounter self of
             (c, self1) \<Rightarrow> ((if c > 0 then self1 else self1\<lparr>pc := AtFlush\<rparr>), log))
      | AtFlush \<Rightarrow>
          (self\<lparr>messages := [],
                 pc := AtSend (join newline (Deduplicate (messages self)))\<rparr>, log)
      | AtSend full_message \<Rightarrow>
          (case run_send g tr full_message self log of
             (r, log') \<Rightarrow>
               (self\<lparr>pc := Finished (case r of Inl e \<Rightarrow> Some e | Inr u \<Rightarrow> None)\<rparr>, log')))"

text \<open>The same step for the Sender at reference \<open>a\<close> of the shared state.\<close>

definition Sender_step :: "globals \<Rightarrow> transport \<Rightarrow> nat \<Rightarrow> world \<Rightarrow> world" where
  "Sender_step g tr a w =
     (case thread_step g tr (heap w ! a) (sent w) of
        (self', log') \<Rightarrow> w\<lparr>heap := (heap w)[a := self'], sent := log'\<rparr>)"

text \<open>\<open>n\<close> consecutive steps of the thread of a Sender, with no other thread in between.\<close>

definition thread_steps :: "globals \<Rightarrow> transport \<Rightarrow> nat \<Rightarrow> Sender \<times> string list \<Rightarrow> Sender \<times> string list" where
  "thread_steps g tr n = (\<lambda>(self, log). thread_step g tr self log) ^^ n"

subsection \<open>PushoverQueue\<close>

text \<open>Modelled from the spec: the priorities of the module \<open>push\<close>.\<close>

datatype Priority = LOW | NORMAL | HIGH | EMERGENCY

record PushoverQueue =
  user_key :: string
  api_token :: string
  rate_limit :: int
  running :: bool

text \<open>The parameters of \<open>PushoverQueue.Push\<close> (lines 158 to 173).\<close>

record push_args =
  message :: string
  callback :: "string option"
  clustering_key :: "string option"
  devices :: "string list option"
  expire :: "int option"
  html :: bool
  priority :: Priority
  retry :: "int option"
  timestamp :: "int option"
  title :: "string option"
  ttl :: "int option"
  url_title :: "string option"
  url :: "string option"

text \<open>
  \<open>PushoverQueue.Push\<close> (line 175): \<open>Push(self.user_key, self.api_token, message)\<close>.
  Bound to the function of line 81, the three positional arguments are its \<open>message\<close>,
  \<open>cluster_key\<close> and \<open>high_priority\<close>. Bound to the imported function, the call hands
  the message to the transport as modelled above.
\<close>

definition PushoverQueue_Push :: "globals \<Rightarrow> transport \<Rightarrow> PushoverQueue \<Rightarrow> push_args \<Rightarrow> world \<Rightarrow> (error + unit) \<times> world" where
  "PushoverQueue_Push g tr self args w =
     (case lookup g ''Push'' of
        Inl e \<Rightarrow> (Inl e, w)
      | Inr (FunV ModulePush) \<Rightarrow>
          Push g (user_key self) (Some (api_token self)) (PyStr (message args)) w
      | Inr (FunV TransportPush) \<Rightarrow>
          (case transport_Push tr (message args) (sent w) of
             (r, log') \<Rightarrow> (r, w\<lparr>sent := log'\<rparr>))
      | Inr (IntV n) \<Rightarrow> (Inl (TypeError ''not callable''), w)
      | Inr (ObjV n) \<Rightarrow> (Inl (TypeError ''not callable''), w))"

section \<open>Properties\<close>

declare countdown.simps [simp del]

subsection \<open>Name lookup\<close>

lemma lookup_Push_module_globals: "lookup module_globals ''Push'' = Inr (FunV ModulePush)"
  by (simp add: lookup_def module_globals_def)

lemma lookup_module_globals_unbound:
  "lookup module_globals ''MAX_COUNTER'' = Inl (NameError ''MAX_COUNTER'')"
  "lookup module_globals ''threading'' = Inl (NameError ''threading'')"
  by (simp_all add: lookup_def module_globals_def)

lemma lookup_supplied:
  "lookup (supplied_globals q) ''MAX_COUNTER'' = Inr (IntV q)"
  "lookup (supplied_globals q) ''threading'' = Inr (ObjV ''threading'')"
  "lookup (supplied_globals q) ''Push'' = Inr (FunV ModulePush)"
  by (simp_all add: lookup_def supplied_globals_def module_globals_def)

subsection \<open>Deduplicate\<close>

lemma set_Deduplicate_from: "set (Deduplicate_from seen xs) = set xs - seen"
  by (induction xs arbitrary: seen) auto

lemma distinct_Deduplicate_from: "distinct (Deduplicate_from seen xs)"
  by (induction xs arbitrary: seen) (auto simp: set_Deduplicate_from)

lemma first_index_Cons:
  "first_index (x # xs) y = (if y = x then 0 else Suc (first_index xs y))"
  by (auto simp: first_index_def)

lemma first_occurrence_order_from:
  "sorted_wrt (\<lambda>u v. first_index xs u < first_index xs v) (Deduplicate_from seen xs)"
proof (induction xs arbitrary: seen)
  case Nil
  then show ?case by simp
next
  case (Cons x xs)
  have later: "sorted_wrt (\<lambda>u v. first_index (x # xs) u < first_index (x # xs) v)
      (Deduplicate_from s xs)" if "x \<in> s" for s
  proof (rule sorted_wrt_mono_rel [OF _ Cons.IH [of s]])
    fix u v
    assume "u \<in> set (Deduplicate_from s xs)" "v \<in> set (Deduplicate_from s xs)"
      and "first_index xs u < first_index xs v"
    with that show "first_index (x # xs) u < first_index (x # xs) v"
      by (auto simp: set_Deduplicate_from first_index_Cons)
  qed
  show ?case
  proof (cases "x \<in> seen")
    case True
    then show ?thesis using later [of seen] by simp
  next
    case False
    then show ?thesis using later [of "insert x seen"]
      by (auto simp: set_Deduplicate_from first_index_Cons)
  qed
qed

lemma Deduplicate_from_append_seen:
  "m \<in> seen \<union> set xs \<Longrightarrow> Deduplicate_from seen (xs @ [m]) = Deduplicate_from seen xs"
  by (induction xs arbitrary: seen) auto

lemma Deduplicate_from_append_new:
  "m \<notin> seen \<union> set xs \<Longrightarrow>
   Deduplicate_from seen (xs @ [m]) = Deduplicate_from seen xs @ [m]"
  by (induction xs arbitrary: seen) auto

subsection \<open>The methods of Sender\<close>

lemma Sender_init_module_globals:
  "Sender_init module_globals im = Inl (NameError ''MAX_COUNTER'')"
  by (simp add: Sender_init_def lookup_module_globals_unbound)

lemma Sender_init_supplied:
  "Sender_init (supplied_globals q) (Some ms) =
     Inr \<lparr>messages = ms, counter = q, secrets_json_path = None, pc = NotStarted\<rparr>"
  by (simp add: Sender_init_def lookup_supplied)

lemma Sender_init_no_secrets:
  "Sender_init g im = Inr s \<Longrightarrow> secrets_json_path s = None"
  by (auto simp: Sender_init_def Let_def split: sum.splits gval.splits if_splits)

lemma messages_EnqueueMessage:
  "messages (snd (EnqueueMessage g m self)) = messages self @ [m]"
  by (simp add: EnqueueMessage_def Let_def split: sum.splits gval.splits)

lemma EnqueueMessage_bound:
  "lookup g ''MAX_COUNTER'' = Inr (IntV q) \<Longrightarrow>
   EnqueueMessage g m self = (Inr (), self\<lparr>messages := messages self @ [m], counter := q\<rparr>)"
  by (simp add: EnqueueMessage_def Let_def)

lemma EnqueueMessage_module_globals:
  "EnqueueMessage module_globals m self =
     (Inl (NameError ''MAX_COUNTER''), self\<lparr>messages := messages self @ [m]\<rparr>)"
  by (simp add: EnqueueMessage_def Let_def lookup_module_globals_unbound)

text \<open>The loop changes the counter only, and leaves it at zero when it started positive.\<close>

lemma countdown_frame:
  "messages (countdown self) = messages self
   \<and> secrets_json_path (countdown self) = secrets_json_path self
   \<and> pc (countdown self) = pc self"
proof (induction self rule: countdown.induct)
  case (1 self)
  show ?case
  proof (cases "fst (DecrementCounter self) > 0")
    case True
    then have "countdown self = countdown (snd (DecrementCounter self))"
      by (subst countdown.simps) simp
    with 1 True show ?thesis by (simp add: DecrementCounter_def)
  next
    case False
    then have "countdown self = snd (DecrementCounter self)"
      by (subst countdown.simps) simp
    then show ?thesis by (simp add: DecrementCounter_def)
  qed
qed

lemma counter_countdown:
  "counter (countdown self) = (if 1 \<le> counter self then 0 else counter self - 1)"
proof (induction self rule: countdown.induct)
  case (1 self)
  show ?case
  proof (cases "fst (DecrementCounter self) > 0")
    case True
    then have "countdown self = countdown (snd (DecrementCounter self))"
      by (subst countdown.simps) simp
    with 1 True show ?thesis by (simp add: DecrementCounter_def)
  next
    case False
    then have "countdown self = snd (DecrementCounter self)"
      by (subst countdown.simps) simp
    with False show ?thesis by (auto simp: DecrementCounter_def)
  qed
qed

subsection \<open>The call of line 75\<close>

lemma run_send_module_globals:
  "run_send module_globals tr fm self log =
     (Inl (case secrets_json_path self of
             None \<Rightarrow> AttributeError ''secrets_json_path''
           | Some path \<Rightarrow> TypeError ''secrets_json_path''), log)"
  by (simp add: run_send_def lookup_Push_module_globals split: option.splits)

lemma run_send_log:
  "snd (run_send g tr fm self log) = log \<or> snd (run_send g tr fm self log) = log @ [fm]"
  by (simp add: run_send_def transport_Push_def
      split: sum.splits option.splits gval.splits callable.splits)

lemma run_send_secrets_only:
  "secrets_json_path s1 = secrets_json_path s2 \<Longrightarrow>
   run_send g tr fm s1 log = run_send g tr fm s2 log"
  by (simp add: run_send_def split: sum.splits)

subsection \<open>The steps of a thread\<close>

lemma thread_step_AtLoop:
  "pc self = AtLoop \<Longrightarrow>
   thread_step g tr self log =
     ((if counter self - 1 > 0 then self\<lparr>counter := counter self - 1\<rparr>
       else self\<lparr>counter := counter self - 1, pc := AtFlush\<rparr>), log)"
  by (simp add: thread_step_def DecrementCounter_def)

lemma thread_step_AtFlush:
  "pc self = AtFlush \<Longrightarrow>
   thread_step g tr self log =
     (self\<lparr>messages := [], pc := AtSend (join newline (Deduplicate (messages self)))\<rparr>, log)"
  by (simp add: thread_step_def)

lemma thread_step_AtSend:
  "pc self = AtSend fm \<Longrightarrow>
   thread_step g tr self log =
     (self\<lparr>pc := Finished (case fst (run_send g tr fm self log) of
                             Inl e \<Rightarrow> Some e | Inr u \<Rightarrow> None)\<rparr>,
      snd (run_send g tr fm self log))"
  by (simp add: thread_step_def split: prod.splits)

lemma thread_step_Finished:
  "pc self = Finished r \<Longrightarrow> thread_step g tr self log = (self, log)"
  by (simp add: thread_step_def)

lemma thread_steps_0: "thread_steps g tr 0 x = x"
  by (simp add: thread_steps_def)

lemma thread_steps_Suc:
  "thread_steps g tr (Suc n) (self, log) = thread_steps g tr n (thread_step g tr self log)"
  by (simp add: thread_steps_def funpow_swap1)

lemma thread_steps_add:
  "thread_steps g tr (k + n) x = thread_steps g tr k (thread_steps g tr n x)"
  by (simp add: thread_steps_def funpow_add)

lemma Sender_step_eq:
  "Sender_step g tr a w =
     w\<lparr>heap := (heap w)[a := fst (thread_step g tr (heap w ! a) (sent w))],
       sent := snd (thread_step g tr (heap w ! a) (sent w))\<rparr>"
  by (simp add: Sender_step_def split: prod.splits)

text \<open>
  Left alone, the steps of a started thread carry out \<open>run\<close>: they reach the end of the
  loop, and two steps later the thread has finished with the result, the Sender and the
  log that \<open>run\<close> returns.
\<close>

lemma countdown_by_steps:
  "pc self = AtLoop \<Longrightarrow>
   \<exists>n. thread_steps g tr n (self, log) = ((countdown self)\<lparr>pc := AtFlush\<rparr>, log)"
proof (induction self rule: countdown.induct)
  case (1 self)
  show ?case
  proof (cases "fst (DecrementCounter self) > 0")
    case True
    then have eq: "countdown self = countdown (snd (DecrementCounter self))"
      by (subst countdown.simps) simp
    have "pc (snd (DecrementCounter self)) = AtLoop"
      using "1.prems" by (simp add: DecrementCounter_def)
    with 1 True obtain n where
      n: "thread_steps g tr n (snd (DecrementCounter self), log)
          = ((countdown (snd (DecrementCounter self)))\<lparr>pc := AtFlush\<rparr>, log)"
      by blast
    have "thread_step g tr self log = (snd (DecrementCounter self), log)"
      using True "1.prems" by (simp add: thread_step_AtLoop DecrementCounter_def)
    then have "thread_steps g tr (Suc n) (self, log) = ((countdown self)\<lparr>pc := AtFlush\<rparr>, log)"
      using n eq by (simp add: thread_steps_Suc)
    then show ?thesis by blast
  next
    case False
    then have eq: "countdown self = snd (DecrementCounter self)"
      by (subst countdown.simps) simp
    have "thread_step g tr self log = ((snd (DecrementCounter self))\<lparr>pc := AtFlush\<rparr>, log)"
      using False "1.prems" by (simp add: thread_step_AtLoop DecrementCounter_def)
    then have "thread_steps g tr (Suc 0) (self, log) = ((countdown self)\<lparr>pc := AtFlush\<rparr>, log)"
      using eq by (simp add: thread_steps_Suc thread_steps_0)
    then show ?thesis by blast
  qed
qed

lemma run_by_steps:
  assumes "pc self = AtLoop"
  shows "\<exists>n. thread_steps g tr n (self, log) =
    ((fst (snd (run g tr self log)))\<lparr>pc := Finished
        (case fst (run g tr self log) of Inl e \<Rightarrow> Some e | Inr u \<Rightarrow> None)\<rparr>,
     snd (snd (run g tr self log)))"
proof -
  let ?fm = "join newline (Deduplicate (messages (countdown self)))"
  let ?s2 = "(countdown self)\<lparr>messages := []\<rparr>"
  obtain n where n: "thread_steps g tr n (self, log) = ((countdown self)\<lparr>pc := AtFlush\<rparr>, log)"
    using countdown_by_steps [OF assms] by blast
  have rs: "run_send g tr ?fm (?s2\<lparr>pc := AtSend ?fm\<rparr>) log = run_send g tr ?fm ?s2 log"
    by (rule run_send_secrets_only) simp
  have "thread_steps g tr (2 + n) (self, log)
      = thread_steps g tr 2 ((countdown self)\<lparr>pc := AtFlush\<rparr>, log)"
    by (simp only: thread_steps_add n)
  also have "\<dots> = thread_steps g tr 1 (?s2\<lparr>pc := AtSend ?fm\<rparr>, log)"
    by (simp add: eval_nat_numeral thread_steps_Suc thread_step_AtFlush)
  also have "\<dots> = (?s2\<lparr>pc := Finished (case fst (run_send g tr ?fm ?s2 log) of
                             Inl e \<Rightarrow> Some e | Inr u \<Rightarrow> None)\<rparr>,
      snd (run_send g tr ?fm ?s2 log))"
    by (simp add: thread_steps_Suc thread_steps_0 thread_step_AtSend rs)
  also have "\<dots> = ((fst (snd (run g tr self log)))\<lparr>pc := Finished
        (case fst (run g tr self log) of Inl e \<Rightarrow> Some e | Inr u \<Rightarrow> None)\<rparr>,
     snd (snd (run g tr self log)))"
    by (simp add: run_def Let_def split: prod.splits)
  finally show ?thesis by blast
qed

subsection \<open>Push with a clustering key\<close>

lemma Push_new_supplied:
  "CLUSTER_DICT w (c # cs) = None
     \<or> is_alive (heap w ! the (CLUSTER_DICT w (c # cs))) = False \<Longrightarrow>
   Push (supplied_globals q) m (Some (c # cs)) hp w =
     (Inr (), w\<lparr>heap := heap w @ [\<lparr>messages = [m], counter = q, secrets_json_path = None,
                                   pc = AtLoop\<rparr>],
               CLUSTER_DICT := (CLUSTER_DICT w)(c # cs \<mapsto> length (heap w))\<rparr>)"
  by (auto simp: Push_def Sender_init_supplied start_def)

text \<open>
  A Sender that has taken its snapshot is still alive, so \<open>Push\<close> hands the message to
  it and creates no new Sender, whatever the namespace.
\<close>

lemma Push_after_snapshot:
  assumes "CLUSTER_DICT w (c # cs) = Some a" and "pc (heap w ! a) = AtSend fm"
  shows "snd (Push g m (Some (c # cs)) hp w) =
    w\<lparr>heap := (heap w)[a := snd (EnqueueMessage g m (heap w ! a))]\<rparr>"
  using assms by (simp add: Push_def is_alive_def split: prod.splits)

section \<open>The claims\<close>

subsection \<open>The flushed body\<close>

text \<open>
  The locked region of lines 70 to 72, as a step of the thread: the body it builds from a
  list \<open>ms\<close> is the entries of \<open>Deduplicate ms\<close> joined by single newlines.
\<close>

lemma AtFlush_step_builds_body:
  assumes "a < length (heap w)" and "pc (heap w ! a) = AtFlush"
    and "messages (heap w ! a) = ms"
  shows "pc (heap (Sender_step g tr a w) ! a) = AtSend (join newline (Deduplicate ms))"
  using assms by (simp add: Sender_step_eq thread_step_AtFlush)

lemma messages_after_enqueues:
  "messages (fold (\<lambda>m s. snd (EnqueueMessage g m s)) ms self) = messages self @ ms"
  by (induction ms arbitrary: self) (simp_all add: messages_EnqueueMessage)

lemma run_hands_deduplicated_body:
  "run g tr self log =
     (case run_send g tr (join newline (Deduplicate (messages self)))
             ((countdown self)\<lparr>messages := []\<rparr>) log of
        (r, log') \<Rightarrow> (r, (countdown self)\<lparr>messages := []\<rparr>, log'))"
  by (simp add: run_def Let_def countdown_frame)

lemma Push_enqueue_supplied:
  "CLUSTER_DICT w (c # cs) = Some a \<Longrightarrow> is_alive (heap w ! a) \<Longrightarrow>
   Push (supplied_globals q) m (Some (c # cs)) hp w =
     (Inr (), w\<lparr>heap := (heap w)[a := (heap w ! a)\<lparr>messages := messages (heap w ! a) @ [m],
                                                    counter := q\<rparr>]\<rparr>)"
  by (simp add: Push_def EnqueueMessage_bound lookup_supplied)

text \<open>
  Claim C1. The bodies enqueued to a Sender are appended to its list in the order of the
  calls, whatever the namespace. \<open>run\<close> hands to the call of line 75 the entries of
  \<open>Deduplicate\<close> of that list joined by single newlines, and \<open>Deduplicate\<close> keeps every
  body, each once, compared by equality, in the order of the first occurrences. In the
  namespace the module builds that call raises for every body and every Sender, so the
  transport log of \<open>run\<close> is as it was: no body is passed to the transport. With the two
  unbound names supplied, the bodies \<open>A\<close>, \<open>B\<close>, \<open>A\<close>, \<open>C\<close> pushed under one key give
  the list \<open>A, B, A, C\<close>; sixteen steps of the thread build the body of \<open>A\<close>, \<open>B\<close>,
  \<open>C\<close> on three lines; the next step ends the thread with \<open>AttributeError\<close> and
  nothing sent.
\<close>

theorem flushed_body_never_reaches_transport:
  "messages (fold (\<lambda>m s. snd (EnqueueMessage g m s)) ms self) = messages self @ ms
   \<and> run g tr self log =
       (case run_send g tr (join newline (Deduplicate (messages self)))
               ((countdown self)\<lparr>messages := []\<rparr>) log of
          (r, log') \<Rightarrow> (r, (countdown self)\<lparr>messages := []\<rparr>, log'))
   \<and> distinct (Deduplicate (messages self))
   \<and> set (Deduplicate (messages self)) = set (messages self)
   \<and> sorted_wrt (\<lambda>u v. first_index (messages self) u < first_index (messages self) v)
        (Deduplicate (messages self))
   \<and> run_send module_globals tr body self log =
       (Inl (case secrets_json_path self of
               None \<Rightarrow> AttributeError ''secrets_json_path''
             | Some path \<Rightarrow> TypeError ''secrets_json_path''), log)
   \<and> snd (snd (run module_globals tr self log)) = log
   \<and> (let g15 = supplied_globals 15;
           w1 = snd (Push g15 ''A'' (Some ''k'') hp empty_world);
           w2 = snd (Push g15 ''B'' (Some ''k'') hp w1);
           w3 = snd (Push g15 ''A'' (Some ''k'') hp w2);
           w4 = snd (Push g15 ''C'' (Some ''k'') hp w3);
           w5 = (Sender_step g15 tr 0 ^^ 16) w4;
           w6 = Sender_step g15 tr 0 w5
       in heap w4 = [\<lparr>messages = [''A'', ''B'', ''A'', ''C''], counter = 15,
                        secrets_json_path = None, pc = AtLoop\<rparr>]
        \<and> heap w5 = [\<lparr>messages = [], counter = 0, secrets_json_path = None,
                        pc = AtSend (''A'' @ [CHR 0x0A] @ ''B'' @ [CHR 0x0A] @ ''C'')\<rparr>]
        \<and> heap w6 = [\<lparr>messages = [], counter = 0, secrets_json_path = None,
                        pc = Finished (Some (AttributeError ''secrets_json_path''))\<rparr>]
        \<and> sent w6 = [])"
proof -
  let ?g = "supplied_globals 15"
  let ?d = "[''k'' \<mapsto> (0::nat)]"
  have w1: "snd (Push ?g ''A'' (Some ''k'') hp empty_world) =
      \<lparr>heap = [\<lparr>messages = [''A''], counter = 15, secrets_json_path = None, pc = AtLoop\<rparr>],
        CLUSTER_DICT = ?d, sent = []\<rparr>"
    by (simp add: Push_new_supplied empty_world_def)
  have w2: "snd (Push ?g ''B'' (Some ''k'') hp
      \<lparr>heap = [\<lparr>messages = [''A''], counter = 15, secrets_json_path = None, pc = AtLoop\<rparr>],
        CLUSTER_DICT = ?d, sent = []\<rparr>) =
      \<lparr>heap = [\<lparr>messages = [''A'', ''B''], counter = 15, secrets_json_path = None,
                 pc = AtLoop\<rparr>],
        CLUSTER_DICT = ?d, sent = []\<rparr>"
    by (simp add: Push_enqueue_supplied [where a = 0] is_alive_def)
  have w3: "snd (Push ?g ''A'' (Some ''k'') hp
      \<lparr>heap = [\<lparr>messages = [''A'', ''B''], counter = 15, secrets_json_path = None,
                 pc = AtLoop\<rparr>],
        CLUSTER_DICT = ?d, sent = []\<rparr>) =
      \<lparr>heap = [\<lparr>messages = [''A'', ''B'', ''A''], counter = 15, secrets_json_path = None,
                 pc = AtLoop\<rparr>],
        CLUSTER_DICT = ?d, sent = []\<rparr>"
    by (simp add: Push_enqueue_supplied [where a = 0] is_alive_def)
  have w4: "snd (Push ?g ''C'' (Some ''k'') hp
      \<lparr>heap = [\<lparr>messages = [''A'', ''B'', ''A''], counter = 15, secrets_json_path = None,
                 pc = AtLoop\<rparr>],
        CLUSTER_DICT = ?d, sent = []\<rparr>) =
      \<lparr>heap = [\<lparr>messages = [''A'', ''B'', ''A'', ''C''], counter = 15,
                 secrets_json_path = None, pc = AtLoop\<rparr>],
        CLUSTER_DICT = ?d, sent = []\<rparr>"
    by (simp add: Push_enqueue_supplied [where a = 0] is_alive_def)
  have w5: "(Sender_step ?g tr 0 ^^ 16)
      \<lparr>heap = [\<lparr>messages = [''A'', ''B'', ''A'', ''C''], counter = 15,
                 secrets_json_path = None, pc = AtLoop\<rparr>],
        CLUSTER_DICT = ?d, sent = []\<rparr> =
      \<lparr>heap = [\<lparr>messages = [], counter = 0, secrets_json_path = None,
                 pc = AtSend (''A'' @ [CHR 0x0A] @ ''B'' @ [CHR 0x0A] @ ''C'')\<rparr>],
        CLUSTER_DICT = ?d, sent = []\<rparr>"
    by (simp add: eval_nat_numeral funpow_swap1 Sender_step_eq thread_step_AtLoop
        thread_step_AtFlush Deduplicate_def newline_def)
  have w6: "Sender_step ?g tr 0
      \<lparr>heap = [\<lparr>messages = [], counter = 0, secrets_json_path = None,
                 pc = AtSend (''A'' @ [CHR 0x0A] @ ''B'' @ [CHR 0x0A] @ ''C'')\<rparr>],
        CLUSTER_DICT = ?d, sent = []\<rparr> =
      \<lparr>heap = [\<lparr>messages = [], counter = 0, secrets_json_path = None,
                 pc = Finished (Some (AttributeError ''secrets_json_path''))\<rparr>],
        CLUSTER_DICT = ?d, sent = []\<rparr>"
    by (simp add: Sender_step_eq thread_step_AtSend run_send_def lookup_supplied)
  have c1: "messages (fold (\<lambda>m s. snd (EnqueueMessage g m s)) ms self) = messages self @ ms"
    by (rule messages_after_enqueues)
  have c2: "run g tr self log =
       (case run_send g tr (join newline (Deduplicate (messages self)))
               ((countdown self)\<lparr>messages := []\<rparr>) log of
          (r, log') \<Rightarrow> (r, (countdown self)\<lparr>messages := []\<rparr>, log'))"
    by (rule run_hands_deduplicated_body)
  have c3: "distinct (Deduplicate (messages self))"
    by (simp add: Deduplicate_def distinct_Deduplicate_from)
  have c4: "set (Deduplicate (messages self)) = set (messages self)"
    by (simp add: Deduplicate_def set_Deduplicate_from)
  have c5: "sorted_wrt (\<lambda>u v. first_index (messages self) u < first_index (messages self) v)
        (Deduplicate (messages self))"
    by (simp add: Deduplicate_def first_occurrence_order_from)
  have c6: "run_send module_globals tr body self log =
       (Inl (case secrets_json_path self of
               None \<Rightarrow> AttributeError ''secrets_json_path''
             | Some path \<Rightarrow> TypeError ''secrets_json_path''), log)"
    by (rule run_send_module_globals)
  have c7: "snd (snd (run module_globals tr self log)) = log"
    by (simp add: run_def Let_def run_send_module_globals)
  have c8: "(let g15 = supplied_globals 15;
           w1 = snd (Push g15 ''A'' (Some ''k'') hp empty_world);
           w2 = snd (Push g15 ''B'' (Some ''k'') hp w1);
           w3 = snd (Push g15 ''A'' (Some ''k'') hp w2);
           w4 = snd (Push g15 ''C'' (Some ''k'') hp w3);
           w5 = (Sender_step g15 tr 0 ^^ 16) w4;
           w6 = Sender_step g15 tr 0 w5
       in heap w4 = [\<lparr>messages = [''A'', ''B'', ''A'', ''C''], counter = 15,
                        secrets_json_path = None, pc = AtLoop\<rparr>]
        \<and> heap w5 = [\<lparr>messages = [], counter = 0, secrets_json_path = None,
                        pc = AtSend (''A'' @ [CHR 0x0A] @ ''B'' @ [CHR 0x0A] @ ''C'')\<rparr>]
        \<and> heap w6 = [\<lparr>messages = [], counter = 0, secrets_json_path = None,
                        pc = Finished (Some (AttributeError ''secrets_json_path''))\<rparr>]
        \<and> sent w6 = [])"
    unfolding Let_def w1 w2 w3 w4 w5 w6 by simp
  from c1 c2 c3 c4 c5 c6 c7 c8 show ?thesis by blast
qed

subsection \<open>The countdown and Enqueue\<close>

text \<open>
  With \<open>MAX_COUNTER\<close> bound to \<open>q\<close>, an Enqueue sets the countdown to \<open>q\<close>: fewer than
  \<open>q\<close> steps of the thread after it leave the thread in its loop, the \<open>q\<close>-th step leaves
  the loop, and a thread that gets an Enqueue before each of its steps never leaves it.
\<close>

lemma ticks_after_Enqueue:
  assumes "lookup g ''MAX_COUNTER'' = Inr (IntV q)" and "pc self = AtLoop" and "int n < q"
  shows "thread_steps g tr n (snd (EnqueueMessage g m self), log) =
    (self\<lparr>messages := messages self @ [m], counter := q - int n\<rparr>, log)"
  using assms(3)
proof (induction n)
  case 0
  then show ?case using assms(1) by (simp add: EnqueueMessage_bound thread_steps_0)
next
  case (Suc n)
  have "thread_steps g tr (Suc n) (snd (EnqueueMessage g m self), log)
      = thread_steps g tr 1 (thread_steps g tr n (snd (EnqueueMessage g m self), log))"
    using thread_steps_add [of g tr 1 n] by simp
  then show ?case
    using Suc assms(2) by (simp add: thread_steps_Suc thread_steps_0 thread_step_AtLoop)
qed

lemma flush_after_quiet_period:
  assumes "lookup g ''MAX_COUNTER'' = Inr (IntV (int (Suc n)))" and "pc self = AtLoop"
  shows "thread_steps g tr (Suc n) (snd (EnqueueMessage g m self), log) =
    (self\<lparr>messages := messages self @ [m], counter := 0, pc := AtFlush\<rparr>, log)"
proof -
  have "thread_steps g tr (Suc n) (snd (EnqueueMessage g m self), log)
      = thread_steps g tr 1 (thread_steps g tr n (snd (EnqueueMessage g m self), log))"
    using thread_steps_add [of g tr 1 n] by simp
  moreover have "thread_steps g tr n (snd (EnqueueMessage g m self), log) =
      (self\<lparr>messages := messages self @ [m], counter := int (Suc n) - int n\<rparr>, log)"
    by (rule ticks_after_Enqueue [OF assms]) simp
  ultimately show ?thesis
    using assms(2) by (simp add: thread_steps_Suc thread_steps_0 thread_step_AtLoop)
qed

lemma Enqueue_every_tick_never_flushes:
  assumes "lookup g ''MAX_COUNTER'' = Inr (IntV q)" and "2 \<le> q" and "pc self = AtLoop"
  shows "pc (fold (\<lambda>m s. fst (thread_step g tr (snd (EnqueueMessage g m s)) log)) ms self)
    = AtLoop"
  using assms(3)
proof (induction ms arbitrary: self)
  case Nil
  then show ?case by simp
next
  case (Cons m ms)
  have "pc (fst (thread_step g tr (snd (EnqueueMessage g m self)) log)) = AtLoop"
    using assms(1,2) Cons.prems by (simp add: EnqueueMessage_bound thread_step_AtLoop)
  then show ?case using Cons.IH by simp
qed

text \<open>
  Claim C2. In the namespace the module builds, no Enqueue resets the countdown: a
  \<open>Push\<close> with a clustering key raises \<open>NameError\<close> at line 49 and creates no Sender,
  and \<open>EnqueueMessage\<close> raises \<open>NameError\<close> at line 55 after the append of line 54,
  with the counter as it was.
\<close>

theorem Enqueue_does_not_rearm:
  "Push module_globals m (Some (c # cs)) hp empty_world
     = (Inl (NameError ''MAX_COUNTER''), empty_world)
   \<and> EnqueueMessage module_globals m self
     = (Inl (NameError ''MAX_COUNTER''), self\<lparr>messages := messages self @ [m]\<rparr>)
   \<and> counter (snd (EnqueueMessage module_globals m self)) = counter self"
  by (simp add: Push_def empty_world_def Sender_init_module_globals
      EnqueueMessage_module_globals)

text \<open>
  Claim C6. \<open>EnqueueMessage\<close> appends the body whether or not the list already has it;
  a body that is already there leaves the deduplicated list of a later flush as it was,
  a new one is added at its end; and where \<open>MAX_COUNTER\<close> is bound to \<open>q\<close> the call
  returns with the counter set to \<open>q\<close>.
\<close>

theorem EnqueueMessage_appends:
  "messages (snd (EnqueueMessage g m self)) = messages self @ [m]
   \<and> (m \<in> set (messages self) \<longrightarrow>
        Deduplicate (messages self @ [m]) = Deduplicate (messages self))
   \<and> (m \<notin> set (messages self) \<longrightarrow>
        Deduplicate (messages self @ [m]) = Deduplicate (messages self) @ [m])
   \<and> (lookup g ''MAX_COUNTER'' = Inr (IntV q) \<longrightarrow>
        EnqueueMessage g m self =
          (Inr (), self\<lparr>messages := messages self @ [m], counter := q\<rparr>))"
  by (simp add: messages_EnqueueMessage EnqueueMessage_bound Deduplicate_def
      Deduplicate_from_append_seen Deduplicate_from_append_new)

theorem EnqueueMessage_appends_witness:
  "EnqueueMessage (supplied_globals 15) ''a''
      \<lparr>messages = [''a'', ''b''], counter = 3, secrets_json_path = None, pc = AtLoop\<rparr>
     = (Inr (), \<lparr>messages = [''a'', ''b'', ''a''], counter = 15, secrets_json_path = None,
                 pc = AtLoop\<rparr>)
   \<and> Deduplicate [''a'', ''b'', ''a''] = Deduplicate [''a'', ''b'']
   \<and> Deduplicate [''a'', ''b'', ''c''] = Deduplicate [''a'', ''b''] @ [''c'']"
  using EnqueueMessage_appends [of "supplied_globals 15" "''a''"
      "\<lparr>messages = [''a'', ''b''], counter = 3, secrets_json_path = None, pc = AtLoop\<rparr>" 15]
    EnqueueMessage_appends [of "supplied_globals 15" "''c''"
      "\<lparr>messages = [''a'', ''b''], counter = 3, secrets_json_path = None, pc = AtLoop\<rparr>" 15]
  by (simp add: lookup_supplied)

theorem Enqueue_of_present_body_changes_list:
  "messages (snd (EnqueueMessage module_globals ''a''
      \<lparr>messages = [''a''], counter = 3, secrets_json_path = None, pc = AtLoop\<rparr>))
     = [''a'', ''a'']
   \<and> messages (snd (EnqueueMessage (supplied_globals 15) ''a''
      \<lparr>messages = [''a''], counter = 3, secrets_json_path = None, pc = AtLoop\<rparr>))
     = [''a'', ''a'']
   \<and> messages (snd (EnqueueMessage (supplied_globals 15) ''a''
      \<lparr>messages = [''a''], counter = 3, secrets_json_path = None, pc = AtLoop\<rparr>))
     \<noteq> messages \<lparr>messages = [''a''], counter = 3, secrets_json_path = None, pc = AtLoop\<rparr>"
  by (simp add: messages_EnqueueMessage)

text \<open>
  Claim C9. In the namespace the module builds, \<open>MAX_COUNTER\<close> is unbound, and
  constructing a Sender raises \<open>NameError\<close> at line 49 whatever the initial messages.
\<close>

theorem MAX_COUNTER_unbound:
  "lookup module_globals ''MAX_COUNTER'' = Inl (NameError ''MAX_COUNTER'')
   \<and> Sender_init module_globals im = Inl (NameError ''MAX_COUNTER'')"
  by (simp add: Sender_init_def lookup_def module_globals_def)

subsection \<open>A call of Push without a clustering key\<close>

text \<open>
  Claim C3. With \<open>cluster_key\<close> absent or empty, \<open>Push\<close> returns without an exception
  and leaves the whole state as it was: the transport log gets no entry and no Sender is
  created or changed. The branch that would send is the comment of lines 104 to 121.
\<close>

theorem unclustered_Push_sends_nothing:
  "Push g m None hp w = (Inr (), w) \<and> Push g m (Some []) hp w = (Inr (), w)"
  by (simp add: Push_def)

subsection \<open>The send step\<close>

text \<open>
  Claim C4. In the namespace the module builds, \<open>Push\<close> is the function of line 81;
  \<open>Sender.__init__\<close> never returns a Sender that has the attribute
  \<open>secrets_json_path\<close>; and \<open>run\<close>, on any Sender, ends in an exception
  (\<open>AttributeError\<close> when the attribute is missing, \<open>TypeError\<close> for the unexpected
  keyword when it is there) with the transport log as it was.
\<close>

theorem run_raises_before_transport:
  "lookup module_globals ''Push'' = Inr (FunV ModulePush)
   \<and> Sender_init g im \<noteq> Inr (s\<lparr>secrets_json_path := Some p\<rparr>)
   \<and> fst (run module_globals tr self log) =
       Inl (case secrets_json_path self of
              None \<Rightarrow> AttributeError ''secrets_json_path''
            | Some path \<Rightarrow> TypeError ''secrets_json_path'')
   \<and> snd (snd (run module_globals tr self log)) = log"
proof -
  have "Sender_init g im \<noteq> Inr (s\<lparr>secrets_json_path := Some p\<rparr>)"
    using Sender_init_no_secrets [of g im "s\<lparr>secrets_json_path := Some p\<rparr>"] by auto
  then show ?thesis
    by (simp add: lookup_Push_module_globals run_def Let_def run_send_module_globals
        countdown_frame)
qed

theorem run_raises_before_transport_witness:
  "fst (run module_globals (\<lambda>b. None)
      \<lparr>messages = [''A'', ''B''], counter = 3, secrets_json_path = None, pc = AtLoop\<rparr> [])
     = Inl (AttributeError ''secrets_json_path'')
   \<and> fst (run module_globals (\<lambda>b. None)
      \<lparr>messages = [''A'', ''B''], counter = 3, secrets_json_path = Some ''p'', pc = AtLoop\<rparr> [])
     = Inl (TypeError ''secrets_json_path'')
   \<and> snd (snd (run module_globals (\<lambda>b. None)
      \<lparr>messages = [''A'', ''B''], counter = 3, secrets_json_path = None, pc = AtLoop\<rparr> []))
     = []"
  using run_raises_before_transport [where tr = "\<lambda>b. None" and log = "[]" and self =
      "\<lparr>messages = [''A'', ''B''], counter = 3, secrets_json_path = None, pc = AtLoop\<rparr>"]
    run_raises_before_transport [where tr = "\<lambda>b. None" and log = "[]" and self =
      "\<lparr>messages = [''A'', ''B''], counter = 3, secrets_json_path = Some ''p'', pc = AtLoop\<rparr>"]
  by simp

text \<open>
  Claim C7. A Sender whose countdown expires with an empty list goes through the locked
  region, which builds the empty body, and through the call of line 75, which raises;
  after these three steps the thread has finished and the transport log is as it was.
\<close>

theorem empty_flush_no_transport_call:
  assumes "a < length (heap w)" and "pc (heap w ! a) = AtLoop"
    and "counter (heap w ! a) \<le> 1" and "messages (heap w ! a) = []"
  shows "pc (heap (Sender_step module_globals tr a w) ! a) = AtFlush
    \<and> pc (heap ((Sender_step module_globals tr a ^^ 2) w) ! a) = AtSend []
    \<and> (\<exists>e. pc (heap ((Sender_step module_globals tr a ^^ 3) w) ! a) = Finished (Some e))
    \<and> is_alive (heap ((Sender_step module_globals tr a ^^ 3) w) ! a) = False
    \<and> sent ((Sender_step module_globals tr a ^^ 3) w) = sent w"
  using assms
  by (simp add: eval_nat_numeral Sender_step_eq thread_step_AtLoop thread_step_AtFlush
      thread_step_AtSend run_send_module_globals Deduplicate_def is_alive_def)

theorem empty_flush_no_transport_call_witness:
  "pc (heap ((Sender_step module_globals (\<lambda>b. None) 0 ^^ 3)
        \<lparr>heap = [\<lparr>messages = [], counter = 1, secrets_json_path = None, pc = AtLoop\<rparr>],
          CLUSTER_DICT = Map.empty, sent = []\<rparr>) ! 0)
     = Finished (Some (AttributeError ''secrets_json_path''))
   \<and> sent ((Sender_step module_globals (\<lambda>b. None) 0 ^^ 3)
        \<lparr>heap = [\<lparr>messages = [], counter = 1, secrets_json_path = None, pc = AtLoop\<rparr>],
          CLUSTER_DICT = Map.empty, sent = []\<rparr>) = []"
  using empty_flush_no_transport_call [of 0
        "\<lparr>heap = [\<lparr>messages = [], counter = 1, secrets_json_path = None, pc = AtLoop\<rparr>],
          CLUSTER_DICT = Map.empty, sent = []\<rparr>" "\<lambda>b. None"]
  by (simp add: eval_nat_numeral Sender_step_eq thread_step_AtLoop thread_step_AtFlush
      thread_step_AtSend run_send_module_globals)

text \<open>
  Claim C8. From the locked region on, whatever the namespace and the transport: after
  the two remaining steps the Sender has an empty list and a finished thread, a further
  step changes nothing, the registry and every other Sender are as they were, and the
  transport got the body at most once. Where \<open>Push\<close> is the transport and the attribute
  exists, the thread finishes with the transport's outcome, failure or acknowledgement
  alike, and the body is logged once.
\<close>

theorem failed_send_drops_messages:
  assumes "a < length (heap w)" and "pc (heap w ! a) = AtFlush"
    and "body = join newline (Deduplicate (messages (heap w ! a)))"
    and "w2 = Sender_step g tr a (Sender_step g tr a w)"
  shows "messages (heap w2 ! a) = []
    \<and> (\<exists>r. pc (heap w2 ! a) = Finished r)
    \<and> is_alive (heap w2 ! a) = False
    \<and> Sender_step g tr a w2 = w2
    \<and> CLUSTER_DICT w2 = CLUSTER_DICT w
    \<and> length (heap w2) = length (heap w)
    \<and> (\<forall>b. b \<noteq> a \<longrightarrow> heap w2 ! b = heap w ! b)
    \<and> (sent w2 = sent w \<or> sent w2 = sent w @ [body])
    \<and> (lookup g ''Push'' = Inr (FunV TransportPush)
          \<and> secrets_json_path (heap w ! a) \<noteq> None
        \<longrightarrow> pc (heap w2 ! a) = Finished (tr body) \<and> sent w2 = sent w @ [body])"
proof -
  let ?s1 = "(heap w ! a)\<lparr>messages := [], pc := AtSend body\<rparr>"
  let ?w1 = "Sender_step g tr a w"
  have w1: "?w1 = w\<lparr>heap := (heap w)[a := ?s1]\<rparr>"
    using assms by (simp add: Sender_step_eq thread_step_AtFlush)
  let ?r = "run_send g tr body ?s1 (sent w)"
  let ?s2 = "?s1\<lparr>pc := Finished (case fst ?r of Inl e \<Rightarrow> Some e | Inr u \<Rightarrow> None)\<rparr>"
  have "w2 = Sender_step g tr a (w\<lparr>heap := (heap w)[a := ?s1]\<rparr>)"
    by (simp only: assms(4) w1)
  then have w2: "w2 = w\<lparr>heap := (heap w)[a := ?s2], sent := snd ?r\<rparr>"
    using assms(1) by (simp add: Sender_step_eq thread_step_AtSend)
  have a1: "messages (heap w2 ! a) = []" using assms(1) by (simp add: w2)
  have a2: "\<exists>r. pc (heap w2 ! a) = Finished r" using assms(1) by (simp add: w2)
  have a3: "is_alive (heap w2 ! a) = False" using assms(1) by (simp add: w2 is_alive_def)
  have a4: "Sender_step g tr a w2 = w2"
    using assms(1) by (simp add: w2 Sender_step_eq thread_step_Finished)
  have a5: "CLUSTER_DICT w2 = CLUSTER_DICT w" by (simp add: w2)
  have a6: "length (heap w2) = length (heap w)" by (simp add: w2)
  have a7: "\<forall>b. b \<noteq> a \<longrightarrow> heap w2 ! b = heap w ! b" by (simp add: w2)
  have a8: "sent w2 = sent w \<or> sent w2 = sent w @ [body]"
    using run_send_log [of g tr body ?s1 "sent w"] by (simp add: w2)
  have a9: "lookup g ''Push'' = Inr (FunV TransportPush)
          \<and> secrets_json_path (heap w ! a) \<noteq> None
        \<longrightarrow> pc (heap w2 ! a) = Finished (tr body) \<and> sent w2 = sent w @ [body]"
    using assms(1)
    by (auto simp: w2 run_send_def transport_Push_def split: option.splits)
  from a1 a2 a3 a4 a5 a6 a7 a8 a9 show ?thesis by blast
qed

theorem failed_send_drops_messages_witness:
  "Sender_step [(''Push'', FunV TransportPush)] (\<lambda>b. Some TransportError) 0
     (Sender_step [(''Push'', FunV TransportPush)] (\<lambda>b. Some TransportError) 0
        \<lparr>heap = [\<lparr>messages = [''x'', ''y'', ''x''], counter = 0,
                   secrets_json_path = Some ''p'', pc = AtFlush\<rparr>,
                 \<lparr>messages = [''z''], counter = 7,
                   secrets_json_path = Some ''p'', pc = AtLoop\<rparr>],
          CLUSTER_DICT = [''k'' \<mapsto> 0, ''l'' \<mapsto> 1], sent = []\<rparr>)
   = \<lparr>heap = [\<lparr>messages = [], counter = 0,
                   secrets_json_path = Some ''p'', pc = Finished (Some TransportError)\<rparr>,
                 \<lparr>messages = [''z''], counter = 7,
                   secrets_json_path = Some ''p'', pc = AtLoop\<rparr>],
          CLUSTER_DICT = [''k'' \<mapsto> 0, ''l'' \<mapsto> 1],
          sent = [''x'' @ [CHR 0x0A] @ ''y'']\<rparr>
   \<and> heap (Sender_step module_globals (\<lambda>b. None) 0
     (Sender_step module_globals (\<lambda>b. None) 0
        \<lparr>heap = [\<lparr>messages = [''x'', ''y'', ''x''], counter = 0,
                   secrets_json_path = None, pc = AtFlush\<rparr>],
          CLUSTER_DICT = [''k'' \<mapsto> 0], sent = []\<rparr>))
   = [\<lparr>messages = [], counter = 0, secrets_json_path = None,
        pc = Finished (Some (AttributeError ''secrets_json_path''))\<rparr>]"
  using failed_send_drops_messages [of 0
        "\<lparr>heap = [\<lparr>messages = [''x'', ''y'', ''x''], counter = 0,
                   secrets_json_path = Some ''p'', pc = AtFlush\<rparr>,
                 \<lparr>messages = [''z''], counter = 7,
                   secrets_json_path = Some ''p'', pc = AtLoop\<rparr>],
          CLUSTER_DICT = [''k'' \<mapsto> 0, ''l'' \<mapsto> 1], sent = []\<rparr>"
        _ _ "[(''Push'', FunV TransportPush)]" "\<lambda>b. Some TransportError", OF _ _ refl refl]
    failed_send_drops_messages [of 0
        "\<lparr>heap = [\<lparr>messages = [''x'', ''y'', ''x''], counter = 0,
                   secrets_json_path = None, pc = AtFlush\<rparr>],
          CLUSTER_DICT = [''k'' \<mapsto> 0], sent = []\<rparr>"
        _ _ module_globals "\<lambda>b. None", OF _ _ refl refl]
  by (simp add: Sender_step_eq thread_step_AtFlush thread_step_AtSend run_send_def
      transport_Push_def lookup_def Deduplicate_def newline_def module_globals_def)

subsection \<open>A Push that meets the flush\<close>

text \<open>
  Claim C5. In the namespace the module builds, a \<open>Push\<close> with a clustering key raises
  \<open>NameError\<close> and the message is kept nowhere. With the two unbound names supplied:
  \<open>Push\<close> of \<open>a\<close> starts the Sender for the key; sixteen steps of its thread (the
  fifteen decrements and the locked region) take the snapshot \<open>a\<close> and clear the list;
  \<open>Push\<close> of \<open>b\<close> then finds the Sender alive and appends \<open>b\<close> to it; the next step
  ends the thread with \<open>b\<close> still in the list and nothing sent; no later step of that
  thread changes anything; and the next \<open>Push\<close> for the key starts a Sender that holds
  its own message only.
\<close>

theorem message_lost_after_snapshot:
  "Push module_globals ''b'' (Some ''k'') hp empty_world
     = (Inl (NameError ''MAX_COUNTER''), empty_world)
   \<and> (let g = supplied_globals 15;
           w1 = snd (Push g ''a'' (Some ''k'') hp empty_world);
           w2 = (Sender_step g tr 0 ^^ 16) w1;
           w3 = snd (Push g ''b'' (Some ''k'') hp w2);
           w4 = Sender_step g tr 0 w3;
           w5 = snd (Push g ''c'' (Some ''k'') hp w4)
       in heap w2 = [\<lparr>messages = [], counter = 0, secrets_json_path = None,
                        pc = AtSend ''a''\<rparr>]
        \<and> fst (Push g ''b'' (Some ''k'') hp w2) = Inr ()
        \<and> heap w3 = [\<lparr>messages = [''b''], counter = 15, secrets_json_path = None,
                        pc = AtSend ''a''\<rparr>]
        \<and> heap w4 = [\<lparr>messages = [''b''], counter = 15, secrets_json_path = None,
                        pc = Finished (Some (AttributeError ''secrets_json_path''))\<rparr>]
        \<and> sent w4 = []
        \<and> Sender_step g tr 0 w4 = w4
        \<and> heap w5 = [\<lparr>messages = [''b''], counter = 15, secrets_json_path = None,
                        pc = Finished (Some (AttributeError ''secrets_json_path''))\<rparr>,
                      \<lparr>messages = [''c''], counter = 15, secrets_json_path = None,
                        pc = AtLoop\<rparr>]
        \<and> CLUSTER_DICT w5 ''k'' = Some 1)"
proof -
  let ?g = "supplied_globals 15"
  let ?d = "[''k'' \<mapsto> (0::nat)]"
  have p0: "Push module_globals ''b'' (Some ''k'') hp empty_world
     = (Inl (NameError ''MAX_COUNTER''), empty_world)"
    by (simp add: Push_def empty_world_def Sender_init_module_globals)
  have w1: "snd (Push ?g ''a'' (Some ''k'') hp empty_world) =
      \<lparr>heap = [\<lparr>messages = [''a''], counter = 15, secrets_json_path = None, pc = AtLoop\<rparr>],
        CLUSTER_DICT = ?d, sent = []\<rparr>"
    by (simp add: Push_new_supplied empty_world_def)
  have w2: "(Sender_step ?g tr 0 ^^ 16)
      \<lparr>heap = [\<lparr>messages = [''a''], counter = 15, secrets_json_path = None, pc = AtLoop\<rparr>],
        CLUSTER_DICT = ?d, sent = []\<rparr> =
      \<lparr>heap = [\<lparr>messages = [], counter = 0, secrets_json_path = None, pc = AtSend ''a''\<rparr>],
        CLUSTER_DICT = ?d, sent = []\<rparr>"
    by (simp add: eval_nat_numeral funpow_swap1 Sender_step_eq thread_step_AtLoop
        thread_step_AtFlush Deduplicate_def)
  have w3: "Push ?g ''b'' (Some ''k'') hp
      \<lparr>heap = [\<lparr>messages = [], counter = 0, secrets_json_path = None, pc = AtSend ''a''\<rparr>],
        CLUSTER_DICT = ?d, sent = []\<rparr> =
      (Inr (), \<lparr>heap = [\<lparr>messages = [''b''], counter = 15, secrets_json_path = None,
                 pc = AtSend ''a''\<rparr>],
        CLUSTER_DICT = ?d, sent = []\<rparr>)"
    by (simp add: Push_def is_alive_def EnqueueMessage_bound lookup_supplied)
  have w4: "Sender_step ?g tr 0
      \<lparr>heap = [\<lparr>messages = [''b''], counter = 15, secrets_json_path = None,
                 pc = AtSend ''a''\<rparr>],
        CLUSTER_DICT = ?d, sent = []\<rparr> =
      \<lparr>heap = [\<lparr>messages = [''b''], counter = 15, secrets_json_path = None,
                 pc = Finished (Some (AttributeError ''secrets_json_path''))\<rparr>],
        CLUSTER_DICT = ?d, sent = []\<rparr>"
    by (simp add: Sender_step_eq thread_step_AtSend run_send_def lookup_supplied)
  have w4': "Sender_step ?g tr 0
      \<lparr>heap = [\<lparr>messages = [''b''], counter = 15, secrets_json_path = None,
                 pc = Finished (Some (AttributeError ''secrets_json_path''))\<rparr>],
        CLUSTER_DICT = ?d, sent = []\<rparr> =
      \<lparr>heap = [\<lparr>messages = [''b''], counter = 15, secrets_json_path = None,
                 pc = Finished (Some (AttributeError ''secrets_json_path''))\<rparr>],
        CLUSTER_DICT = ?d, sent = []\<rparr>"
    by (simp add: Sender_step_eq thread_step_Finished)
  have w5: "snd (Push ?g ''c'' (Some ''k'') hp
      \<lparr>heap = [\<lparr>messages = [''b''], counter = 15, secrets_json_path = None,
                 pc = Finished (Some (AttributeError ''secrets_json_path''))\<rparr>],
        CLUSTER_DICT = ?d, sent = []\<rparr>) =
      \<lparr>heap = [\<lparr>messages = [''b''], counter = 15, secrets_json_path = None,
                 pc = Finished (Some (AttributeError ''secrets_json_path''))\<rparr>,
               \<lparr>messages = [''c''], counter = 15, secrets_json_path = None, pc = AtLoop\<rparr>],
        CLUSTER_DICT = ?d(''k'' \<mapsto> 1), sent = []\<rparr>"
    by (simp add: Push_new_supplied is_alive_def)
  show ?thesis
    unfolding Let_def w1 w2 w3 w4 w4' w5 snd_conv fst_conv
    by (simp add: p0)
qed

subsection \<open>PushoverQueue.Push\<close>

text \<open>
  Claim C10. In the namespace the module builds, \<open>PushoverQueue.Push\<close> is the call of
  the function of line 81 with the user key as message, the API token as clustering key
  and the message as \<open>high_priority\<close>; none of its other parameters is read. For the
  queue of user key \<open>u\<close> and token \<open>t\<close>, the message \<open>hello\<close> with clustering key
  \<open>k\<close> raises \<open>NameError\<close>; with the two unbound names supplied it starts a Sender that
  holds \<open>u\<close>, registered under \<open>t\<close>.
\<close>

theorem PushoverQueue_Push_misplaces_arguments:
  "PushoverQueue_Push module_globals tr self args w
     = Push module_globals (user_key self) (Some (api_token self)) (PyStr (message args)) w
   \<and> PushoverQueue_Push module_globals tr
        \<lparr>user_key = ''u'', api_token = ''t'', rate_limit = 0, running = False\<rparr>
        \<lparr>message = ''hello'', callback = None, clustering_key = Some ''k'', devices = None,
          expire = None, html = False, priority = HIGH, retry = None, timestamp = None,
          title = Some ''T'', ttl = None, url_title = None, url = None\<rparr>
        empty_world
     = (Inl (NameError ''MAX_COUNTER''), empty_world)
   \<and> PushoverQueue_Push (supplied_globals 15) tr
        \<lparr>user_key = ''u'', api_token = ''t'', rate_limit = 0, running = False\<rparr>
        \<lparr>message = ''hello'', callback = None, clustering_key = Some ''k'', devices = None,
          expire = None, html = False, priority = HIGH, retry = None, timestamp = None,
          title = Some ''T'', ttl = None, url_title = None, url = None\<rparr>
        empty_world
     = (Inr (), \<lparr>heap = [\<lparr>messages = [''u''], counter = 15, secrets_json_path = None,
                            pc = AtLoop\<rparr>],
                  CLUSTER_DICT = [''t'' \<mapsto> 0], sent = []\<rparr>)"
proof (intro conjI)
  show "PushoverQueue_Push module_globals tr self args w
     = Push module_globals (user_key self) (Some (api_token self)) (PyStr (message args)) w"
    by (simp add: PushoverQueue_Push_def lookup_Push_module_globals)
  show "PushoverQueue_Push module_globals tr
        \<lparr>user_key = ''u'', api_token = ''t'', rate_limit = 0, running = False\<rparr>
        \<lparr>message = ''hello'', callback = None, clustering_key = Some ''k'', devices = None,
          expire = None, html = False, priority = HIGH, retry = None, timestamp = None,
          title = Some ''T'', ttl = None, url_title = None, url = None\<rparr>
        empty_world
     = (Inl (NameError ''MAX_COUNTER''), empty_world)"
    by (simp add: PushoverQueue_Push_def lookup_Push_module_globals Push_def empty_world_def
        Sender_init_module_globals)
  show "PushoverQueue_Push (supplied_globals 15) tr
        \<lparr>user_key = ''u'', api_token = ''t'', rate_limit = 0, running = False\<rparr>
        \<lparr>message = ''hello'', callback = None, clustering_key = Some ''k'', devices = None,
          expire = None, html = False, priority = HIGH, retry = None, timestamp = None,
          title = Some ''T'', ttl = None, url_title = None, url = None\<rparr>
        empty_world
     = (Inr (), \<lparr>heap = [\<lparr>messages = [''u''], counter = 15, secrets_json_path = None,
                            pc = AtLoop\<rparr>],
                  CLUSTER_DICT = [''t'' \<mapsto> 0], sent = []\<rparr>)"
    by (simp add: PushoverQueue_Push_def lookup_supplied Push_new_supplied empty_world_def)
qed

end
